theory Spec2Isabelle
  imports Complex_Main "HOL-Library.Word" "HOL-Library.Sublist"
begin

section \<open>Solar panel monitor: the sensor-to-status derivation\<close>

text \<open>
  The repository holds three Arduino sketches for an ESP32: \<^verbatim>\<open>sketch_feb5a.ino\<close>
  (serial output only) and two builds of \<^verbatim>\<open>SolarPanel.ino\<close> (web dashboard, one of
  them with a PWM buzzer). All three read a thermistor and a photoresistor, derive a
  temperature, a light percentage and a status string, and differ in the threshold, in
  the status strings and in where the results are kept.

  Numbers. The sketches compute in C \<^verbatim>\<open>float\<close>. The model keeps the special values of
  that arithmetic (the infinities and the not-a-number, which \<^verbatim>\<open>log\<close> and a division by
  zero produce) and computes on finite values exactly, in \<^typ>\<open>real\<close>: rounding to 24
  binary digits is not modelled, and neither is the sign of a zero. Raw ADC codes are C
  \<^verbatim>\<open>int\<close>s and are modelled as \<^typ>\<open>int\<close>; \<^verbatim>\<open>analogRead\<close> at 12-bit resolution
  yields codes from 0 to 4095, on which no integer expression of the sketches overflows.
\<close>

subsection \<open>Float values\<close>

datatype fval = Fin real | PInf | MInf | NaN

fun fneg :: "fval \<Rightarrow> fval" where
  "fneg (Fin x) = Fin (- x)"
| "fneg PInf = MInf"
| "fneg MInf = PInf"
| "fneg NaN = NaN"

fun fadd :: "fval \<Rightarrow> fval \<Rightarrow> fval" where
  "fadd NaN _ = NaN"
| "fadd _ NaN = NaN"
| "fadd (Fin x) (Fin y) = Fin (x + y)"
| "fadd PInf MInf = NaN"
| "fadd MInf PInf = NaN"
| "fadd PInf _ = PInf"
| "fadd _ PInf = PInf"
| "fadd MInf _ = MInf"
| "fadd _ MInf = MInf"

definition fsub :: "fval \<Rightarrow> fval \<Rightarrow> fval" where
  "fsub a b = fadd a (fneg b)"

text \<open>
  Division: a finite non-zero value over zero is an infinity (the zero is taken as
  positive), zero over zero and infinity over infinity are not-a-number, a finite value
  over an infinity is zero.
\<close>

fun fdiv :: "fval \<Rightarrow> fval \<Rightarrow> fval" where
  "fdiv NaN _ = NaN"
| "fdiv _ NaN = NaN"
| "fdiv (Fin x) (Fin y) =
     (if y \<noteq> 0 then Fin (x / y)
      else if 0 < x then PInf else if x < 0 then MInf else NaN)"
| "fdiv (Fin x) PInf = Fin 0"
| "fdiv (Fin x) MInf = Fin 0"
| "fdiv PInf (Fin y) = (if 0 \<le> y then PInf else MInf)"
| "fdiv MInf (Fin y) = (if 0 \<le> y then MInf else PInf)"
| "fdiv PInf PInf = NaN"
| "fdiv PInf MInf = NaN"
| "fdiv MInf PInf = NaN"
| "fdiv MInf MInf = NaN"

text \<open>The C library's \<^verbatim>\<open>log\<close>: minus infinity at zero, not-a-number below zero.\<close>

fun flog :: "fval \<Rightarrow> fval" where
  "flog (Fin x) = (if 0 < x then Fin (ln x) else if x = 0 then MInf else NaN)"
| "flog PInf = PInf"
| "flog MInf = NaN"
| "flog NaN = NaN"

text \<open>The comparison \<^verbatim>\<open>a > b\<close>: false whenever an operand is not-a-number.\<close>

fun fgt :: "fval \<Rightarrow> fval \<Rightarrow> bool" where
  "fgt NaN _ = False"
| "fgt _ NaN = False"
| "fgt (Fin x) (Fin y) = (y < x)"
| "fgt PInf PInf = False"
| "fgt PInf _ = True"
| "fgt _ PInf = False"
| "fgt MInf _ = False"
| "fgt _ MInf = True"

subsection \<open>Thermistor: resistance and temperature\<close>

definition SERIES_RESISTOR :: real where "SERIES_RESISTOR = 10000"
definition NOMINAL_RESISTANCE :: real where "NOMINAL_RESISTANCE = 10000"
definition NOMINAL_TEMPERATURE :: real where "NOMINAL_TEMPERATURE = 25"
definition B_COEFFICIENT :: real where "B_COEFFICIENT = 3950"
definition ADC_MAX :: real where "ADC_MAX = 4095"

text \<open>
  \<^verbatim>\<open>float resistance = 0;
  if (adcTherm == 0) resistance = 1000000;
  else if (adcTherm >= ADC_MAX) resistance = 0;
  else resistance = SERIES_RESISTOR / ((ADC_MAX / (float)adcTherm) - 1);\<close>
  The divisor of the last branch is never zero: it is zero only at \<open>adcTherm = 4095\<close>,
  which the second branch takes. So the resistance is always finite.
\<close>

definition resistance :: "int \<Rightarrow> real" where
  "resistance adcTherm =
     (if adcTherm = 0 then 1000000
      else if ADC_MAX \<le> real_of_int adcTherm then 0
      else SERIES_RESISTOR / ((ADC_MAX / real_of_int adcTherm) - 1))"

text \<open>
  \<^verbatim>\<open>float steinhart = resistance / NOMINAL_RESISTANCE;
  steinhart = log(steinhart);
  steinhart /= B_COEFFICIENT;
  steinhart += 1.0 / (NOMINAL_TEMPERATURE + 273.15);
  steinhart = 1.0 / steinhart;
  steinhart -= 273.15;\<close>
\<close>

definition steinhart :: "real \<Rightarrow> fval" where
  "steinhart r =
     (let s1 = fdiv (Fin r) (Fin NOMINAL_RESISTANCE);
          s2 = flog s1;
          s3 = fdiv s2 (Fin B_COEFFICIENT);
          s4 = fadd s3 (Fin (1 / (NOMINAL_TEMPERATURE + 273.15)));
          s5 = fdiv (Fin 1) s4;
          s6 = fsub s5 (Fin 273.15)
      in s6)"

definition temperatureC :: "int \<Rightarrow> fval" where
  "temperatureC adcTherm = steinhart (resistance adcTherm)"

text \<open>
  The value of \<^verbatim>\<open>steinhart\<close> just before the division \<^verbatim>\<open>1.0 / steinhart\<close>, when it is
  finite: the reciprocal of the absolute temperature.
\<close>

definition invT :: "int \<Rightarrow> real" where
  "invT adc = ln (resistance adc / 10000) / 3950 + 1 / 298.15"

text \<open>
  The spec's closed formula for the temperature at raw code 0, to be compared with
  what \<open>temperatureC\<close> computes there.
\<close>

definition spec_temperature_raw0 :: real where
  "spec_temperature_raw0 = 1 / (ln (1000000 / 10000) / 3950 + 1 / 298.15) - 273.15"

subsection \<open>Photoresistor: light percentage\<close>

text \<open>C's integer division, which truncates towards zero.\<close>

definition c_div :: "int \<Rightarrow> int \<Rightarrow> int" where
  "c_div a b = sgn a * sgn b * (\<bar>a\<bar> div \<bar>b\<bar>)"

text \<open>
  Modelled from the spec: the Arduino core's \<^verbatim>\<open>map\<close>, a library function that is not in
  the repository. The spec gives the light percentage as \<open>round_to_integer\<close> of the
  linear map from \<open>[ADC_MAX, 0]\<close> onto \<open>[0, 100]\<close>, computed by integer-domain linear
  interpolation (raw 2048 gives about 50, raw 500 about 88). That is the interpolation
  which adds half the divisor before it divides, as the ESP32 core 2.0.x writes it in
  \<^verbatim>\<open>long\<close> arithmetic:
  \<^verbatim>\<open>(delta * dividend + (divisor / 2)) / divisor + out_min\<close>,
  with -1 returned for an empty input range. A core that divides without adding
  \<^verbatim>\<open>divisor / 2\<close> drops the fraction instead; the spec's values follow the rounding form.
\<close>

definition map_long :: "int \<Rightarrow> int \<Rightarrow> int \<Rightarrow> int \<Rightarrow> int \<Rightarrow> int" where
  "map_long x in_min in_max out_min out_max =
     (let dividend = out_max - out_min;
          divisor = in_max - in_min;
          delta = x - in_min
      in if divisor = 0 then - 1
         else c_div (delta * dividend + c_div divisor 2) divisor + out_min)"

text \<open>
  \<^verbatim>\<open>long lightPercent = map(adcLDR, 4095, 0, 0, 100);
  if (lightPercent < 0) lightPercent = 0;
  if (lightPercent > 100) lightPercent = 100;\<close>
\<close>

definition lightPercent :: "int \<Rightarrow> int" where
  "lightPercent adcLDR =
     (let p1 = map_long adcLDR 4095 0 0 100;
          p2 = (if p1 < 0 then 0 else p1);
          p3 = (if 100 < p2 then 100 else p2)
      in p3)"

subsection \<open>Status\<close>

text \<open>
  \<^verbatim>\<open>sketch_feb5a.ino\<close>:
  \<^verbatim>\<open>String statusMsg = "OK"; if (steinhart > TEMP_THRESHOLD) statusMsg = "WARNING: HIGH TEMP!";\<close>
\<close>

definition statusMsg :: "real \<Rightarrow> fval \<Rightarrow> string" where
  "statusMsg thr t = (if fgt t (Fin thr) then ''WARNING: HIGH TEMP!'' else ''OK'')"

text \<open>
  \<^verbatim>\<open>SolarPanel.ino\<close>:
  \<^verbatim>\<open>if (currentTemp > TEMP_THRESHOLD) currentStatus = "WARNING: HIGH TEMP!";
  else currentStatus = "System Normal";\<close>
\<close>

definition statusOf :: "real \<Rightarrow> fval \<Rightarrow> string" where
  "statusOf thr t =
     (if fgt t (Fin thr) then ''WARNING: HIGH TEMP!'' else ''System Normal'')"

text \<open>The dashboard's test \<^verbatim>\<open>data.status.includes("WARNING")\<close>.\<close>

fun str_includes :: "string \<Rightarrow> string \<Rightarrow> bool" where
  "str_includes [] pat = (pat = [])"
| "str_includes (c # cs) pat = (prefix pat (c # cs) \<or> str_includes cs pat)"

subsection \<open>The three builds\<close>

record build =
  TEMP_THRESHOLD :: real
  hasBuzzer :: bool

definition sketch_feb5a :: build where
  "sketch_feb5a = \<lparr>TEMP_THRESHOLD = 30, hasBuzzer = False\<rparr>"

definition SolarPanel_buzzer :: build where
  "SolarPanel_buzzer = \<lparr>TEMP_THRESHOLD = 32.5, hasBuzzer = True\<rparr>"

definition SolarPanel_plain :: build where
  "SolarPanel_plain = \<lparr>TEMP_THRESHOLD = 30, hasBuzzer = False\<rparr>"

text \<open>
  One pass of \<^verbatim>\<open>loop\<close> in \<^verbatim>\<open>sketch_feb5a.ino\<close>: the two codes read, and the three
  values printed (temperature, light percentage, status). Nothing is kept between
  passes.
\<close>

definition loop_sketch :: "build \<Rightarrow> int \<Rightarrow> int \<Rightarrow> fval \<times> int \<times> string" where
  "loop_sketch b adcTherm adcLDR =
     (let t = temperatureC adcTherm;
          l = lightPercent adcLDR;
          m = statusMsg (TEMP_THRESHOLD b) t
      in (t, l, m))"

text \<open>
  \<^verbatim>\<open>SolarPanel.ino\<close> keeps the latest values in globals, written by \<^verbatim>\<open>loop\<close> and read
  by the HTTP handler. \<open>buzzerDuty\<close> is the duty last written with \<^verbatim>\<open>ledcWrite\<close>, if
  any (only the build with the buzzer writes one).
\<close>

record telemetry =
  currentTemp :: fval
  currentLightPercent :: int
  currentStatus :: string
  lastTime :: "32 word"
  buzzerDuty :: "nat option"

definition init :: telemetry where
  "init = \<lparr>currentTemp = Fin 0, currentLightPercent = 0, currentStatus = ''OK'',
            lastTime = 0, buzzerDuty = None\<rparr>"

text \<open>
  What one pass of \<^verbatim>\<open>loop\<close> reads from outside: \<^verbatim>\<open>millis()\<close> twice (in the
  condition and in the assignment) and the two analog pins.
\<close>

record reads =
  millis1 :: "32 word"
  millis2 :: "32 word"
  adcTherm :: int
  adcLDR :: int

definition interval :: "32 word" where "interval = 1000"

text \<open>
  \<^verbatim>\<open>if (millis() - lastTime > interval) { lastTime = millis(); ... }\<close>
  with \<^verbatim>\<open>unsigned long\<close> (32-bit) time stamps, so the difference wraps around.
  The serial log and the servicing of DNS and HTTP requests write none of the globals.
\<close>

definition loop :: "build \<Rightarrow> telemetry \<Rightarrow> reads \<Rightarrow> telemetry" where
  "loop b s i =
     (if interval < millis1 i - lastTime s then
        let t = temperatureC (adcTherm i);
            l = lightPercent (adcLDR i);
            warn = fgt t (Fin (TEMP_THRESHOLD b))
        in s\<lparr>lastTime := millis2 i,
              currentTemp := t,
              currentLightPercent := l,
              currentStatus := statusOf (TEMP_THRESHOLD b) t,
              buzzerDuty := (if hasBuzzer b then Some (if warn then 128 else 0)
                             else buzzerDuty s)\<rparr>
      else s)"

text \<open>The state after a sequence of passes, starting from the initial globals.\<close>

definition run :: "build \<Rightarrow> reads list \<Rightarrow> telemetry" where
  "run b rs = foldl (loop b) init rs"

text \<open>
  \<^verbatim>\<open>handleReadings\<close> builds the JSON payload from the globals. The two conversions of
  a number to a string (\<^verbatim>\<open>String(float)\<close>, \<^verbatim>\<open>String(int)\<close>) are library code and are
  parameters here.
\<close>

definition handleReadings ::
  "(fval \<Rightarrow> string) \<Rightarrow> (int \<Rightarrow> string) \<Rightarrow> telemetry \<Rightarrow> string" where
  \<open>handleReadings String_float String_int s =
     (let json = ''{'';
          json = json @ (''"temp":'' @ String_float (currentTemp s) @ '','');
          json = json @ (''"light":'' @ String_int (currentLightPercent s) @ '','');
          json = json @ (''"status":"'' @ currentStatus s @ ''"'');
          json = json @ ''}''
      in json)\<close>

section \<open>Resistance\<close>

lemma resistance_zero: "resistance 0 = 1000000"
  by (simp add: resistance_def)

lemma resistance_high: "4095 \<le> adc \<Longrightarrow> resistance adc = 0"
  by (simp add: resistance_def ADC_MAX_def)

lemma resistance_mid:
  "0 < adc \<Longrightarrow> adc < 4095 \<Longrightarrow>
   resistance adc = 10000 / (4095 / real_of_int adc - 1)"
  by (simp add: resistance_def ADC_MAX_def SERIES_RESISTOR_def)

text \<open>
  C1. The resistance estimate is 1,000,000 at raw code 0, is 0 at every raw code from
  \<open>ADC_MAX\<close> = 4095 upwards, and is \<open>SERIES_RESISTOR / (ADC_MAX / rawCode - 1)\<close> with
  \<open>SERIES_RESISTOR\<close> = 10000 at every raw code strictly between 0 and \<open>ADC_MAX\<close>.
\<close>

theorem C1_resistance_cases:
  "resistance 0 = 1000000 \<and>
   (real_of_int rawCode \<ge> ADC_MAX \<longrightarrow> resistance rawCode = 0) \<and>
   (0 < rawCode \<and> real_of_int rawCode < ADC_MAX \<longrightarrow>
      resistance rawCode = SERIES_RESISTOR / (ADC_MAX / real_of_int rawCode - 1)) \<and>
   ADC_MAX = 4095 \<and> SERIES_RESISTOR = 10000"
  by (simp add: resistance_def ADC_MAX_def SERIES_RESISTOR_def)

theorem C1_resistance_cases_witness:
  "resistance 0 = 1000000 \<and>
   real_of_int 5000 \<ge> ADC_MAX \<and> resistance 5000 = 0 \<and>
   (0::int) < 1800 \<and> real_of_int 1800 < ADC_MAX \<and>
   resistance 1800 = SERIES_RESISTOR / (ADC_MAX / real_of_int 1800 - 1)"
proof -
  have hi: "real_of_int 5000 \<ge> ADC_MAX" by (simp add: ADC_MAX_def)
  have mid: "(0::int) < 1800 \<and> real_of_int 1800 < ADC_MAX" by (simp add: ADC_MAX_def)
  from C1_resistance_cases [of 5000] hi have a: "resistance 0 = 1000000 \<and> resistance 5000 = 0"
    by blast
  from C1_resistance_cases [of 1800] mid
  have b: "resistance 1800 = SERIES_RESISTOR / (ADC_MAX / real_of_int 1800 - 1)"
    by blast
  from a b hi mid show ?thesis by blast
qed

lemma resistance_pos: "0 < adc \<Longrightarrow> adc < 4095 \<Longrightarrow> 0 < resistance adc"
  by (simp add: resistance_mid)

text \<open>
  Between the two ends the estimate grows with the raw code: \<open>ADC_MAX / r - 1\<close> is
  positive and falls as \<open>r\<close> grows, and the resistance is its reciprocal times 10000.
\<close>

lemma resistance_strict_mono:
  assumes "0 < r1" "r1 < r2" "r2 < 4095"
  shows "resistance r1 < resistance r2"
proof -
  have p1: "0 < real_of_int r1" using assms by simp
  have lt: "real_of_int r1 < real_of_int r2" using assms by simp
  have d2: "0 < 4095 / real_of_int r2 - 1" using assms by simp
  have "4095 / real_of_int r2 < 4095 / real_of_int r1"
    using p1 lt by (simp add: divide_strict_left_mono)
  then have "4095 / real_of_int r2 - 1 < 4095 / real_of_int r1 - 1" by simp
  then have "10000 / (4095 / real_of_int r1 - 1) < 10000 / (4095 / real_of_int r2 - 1)"
    using d2 by (simp add: divide_strict_left_mono)
  then show ?thesis using assms by (simp add: resistance_mid)
qed

text \<open>
  C2 (as stated). For raw codes \<open>0 < r1 < r2 < ADC_MAX\<close> the specification asks for
  \<open>resistance r1 > resistance r2\<close>. At \<open>r1 = 1\<close>, \<open>r2 = 2\<close> the code gives
  10000/4094 and 10000/2046.5, and the first is the smaller one.
\<close>

theorem C2_decreasing_counterexample:
  "(0::int) < 1 \<and> (1::int) < 2 \<and> real_of_int 2 < ADC_MAX \<and>
   resistance 1 = 10000 / 4094 \<and> resistance 2 = 10000 / 2046.5 \<and>
   \<not> (resistance 1 > resistance 2)"
  by (simp add: resistance_def ADC_MAX_def SERIES_RESISTOR_def)

text \<open>
  C2 (amended). For all raw codes \<open>r\<close> in the open interval \<open>(0, ADC_MAX)\<close> the estimate
  \<open>resistance r = R_S / (ADC_MAX / r - 1)\<close> is strictly increasing in \<open>r\<close>: for every
  \<open>r1\<close>, \<open>r2\<close> with \<open>0 < r1 < r2 < ADC_MAX\<close>, \<open>resistance r1 < resistance r2\<close>.
\<close>

theorem C2_resistance_increasing:
  "0 < r1 \<Longrightarrow> r1 < r2 \<Longrightarrow> real_of_int r2 < ADC_MAX \<Longrightarrow>
   resistance r1 < resistance r2"
  by (rule resistance_strict_mono) (simp_all add: ADC_MAX_def)

theorem C2_resistance_increasing_witness:
  "(0::int) < 1800 \<and> (1800::int) < 1801 \<and> real_of_int 1801 < ADC_MAX \<and>
   resistance 1800 < resistance 1801"
proof -
  have h: "real_of_int 1801 < ADC_MAX" by (simp add: ADC_MAX_def)
  have "resistance 1800 < resistance 1801"
    using C2_resistance_increasing [of 1800 1801] h by simp
  with h show ?thesis by simp
qed

text \<open>
  The two end branches do not continue the formula: the value at code 0 lies above the
  value at code 1, and the value at code 4095 below the value at code 4094. So the
  estimate is monotone on the open interval only.
\<close>

lemma resistance_ends:
  "resistance 1 < resistance 0 \<and> resistance 4095 < resistance 4094 \<and>
   resistance 1 = 10000 / 4094 \<and> resistance 4094 = 40940000"
  by (simp add: resistance_def ADC_MAX_def SERIES_RESISTOR_def)

section \<open>Temperature\<close>

lemma resistance_lower:
  assumes "0 < adc" "adc < 4095"
  shows "1 / 4096 < resistance adc / 10000"
proof -
  define d where "d = 4095 / real_of_int adc - 1"
  have a: "1 \<le> real_of_int adc" using assms by simp
  have "4095 / real_of_int adc \<le> 4095" using a by (simp add: divide_le_eq)
  then have b: "d \<le> 4094" by (simp add: d_def)
  have c: "0 < d" using assms by (simp add: d_def)
  have r: "resistance adc = 10000 / d"
    using assms by (simp add: resistance_mid d_def)
  have "1 / 4094 \<le> 1 / d" using b c by (simp add: divide_left_mono)
  moreover have "resistance adc / 10000 = 1 / d" unfolding r by simp
  ultimately show ?thesis by simp
qed

lemma ln_4096: "ln (4096::real) < 12"
proof -
  have "ln (4096::real) = ln (2 ^ 12)" by simp
  also have "\<dots> = 12 * ln 2" by (subst ln_realpow) simp_all
  also have "\<dots> < 12" using ln_2_less_1 by simp
  finally show ?thesis .
qed

text \<open>
  On the codes 1 to 4094 the logarithm stays above -12, so the reciprocal temperature is
  positive and the division \<^verbatim>\<open>1.0 / steinhart\<close> is a finite one.
\<close>

lemma invT_pos:
  assumes "0 < adc" "adc < 4095"
  shows "0 < invT adc"
proof -
  have "ln (1 / 4096 :: real) < ln (resistance adc / 10000)"
    using resistance_lower [OF assms] by simp
  moreover have "ln (1 / 4096 :: real) = - ln 4096" by (simp add: ln_div)
  ultimately have "- 12 < ln (resistance adc / 10000)" using ln_4096 by linarith
  then show ?thesis by (simp add: invT_def field_simps)
qed

lemma temperatureC_mid:
  assumes "0 < adc" "adc < 4095"
  shows "temperatureC adc = Fin (1 / invT adc - 273.15)"
  using resistance_pos [OF assms] invT_pos [OF assms]
  by (simp add: temperatureC_def steinhart_def Let_def fsub_def invT_def
      NOMINAL_RESISTANCE_def B_COEFFICIENT_def NOMINAL_TEMPERATURE_def)

lemma invT_strict_mono:
  assumes "0 < r1" "r1 < r2" "r2 < 4095"
  shows "invT r1 < invT r2"
proof -
  have "0 < resistance r1" using assms by (intro resistance_pos) simp_all
  moreover have "resistance r1 < resistance r2" using assms by (rule resistance_strict_mono)
  ultimately have "ln (resistance r1 / 10000) < ln (resistance r2 / 10000)" by simp
  then show ?thesis by (simp add: invT_def divide_strict_right_mono)
qed

lemma temperatureC_strict_antimono:
  assumes "0 < r1" "r1 < r2" "r2 < 4095"
  shows "1 / invT r2 - 273.15 < 1 / invT r1 - 273.15"
proof -
  have "0 < invT r1" using assms by (intro invT_pos) simp_all
  moreover have "invT r1 < invT r2" using assms by (rule invT_strict_mono)
  ultimately have "1 / invT r2 < 1 / invT r1" by (simp add: divide_strict_left_mono)
  then show ?thesis by simp
qed

text \<open>
  C3 (as stated). For raw codes \<open>r1 < r2\<close> in \<open>(0, ADC_MAX)\<close> the specification asks for
  \<open>temperatureC r1 < temperatureC r2\<close>. At \<open>r1 = 1\<close>, \<open>r2 = 2\<close> both temperatures are
  finite and the second is not the greater one.
\<close>

theorem C3_increasing_counterexample:
  "(0::int) < 1 \<and> (1::int) < 2 \<and> real_of_int 2 < ADC_MAX \<and>
   temperatureC 1 = Fin (1 / invT 1 - 273.15) \<and>
   temperatureC 2 = Fin (1 / invT 2 - 273.15) \<and>
   \<not> fgt (temperatureC 2) (temperatureC 1)"
proof -
  have "1 / invT 2 - 273.15 < 1 / invT 1 - 273.15"
    by (rule temperatureC_strict_antimono) simp_all
  moreover have "temperatureC 1 = Fin (1 / invT 1 - 273.15)"
    by (rule temperatureC_mid) simp_all
  moreover have "temperatureC 2 = Fin (1 / invT 2 - 273.15)"
    by (rule temperatureC_mid) simp_all
  ultimately show ?thesis by (simp add: ADC_MAX_def)
qed

text \<open>
  C3 (amended). The derived temperature is a strictly decreasing function of the raw
  thermistor code: for every pair of raw codes \<open>r1 < r2\<close> in \<open>(0, ADC_MAX)\<close> both
  temperatures are finite and \<open>temperatureC r1 > temperatureC r2\<close> (the resistance
  increases with the raw code, and the temperature decreases with the resistance).
\<close>

theorem C3_temperature_decreasing:
  "0 < r1 \<Longrightarrow> r1 < r2 \<Longrightarrow> real_of_int r2 < ADC_MAX \<Longrightarrow>
   \<exists>t1 t2. temperatureC r1 = Fin t1 \<and> temperatureC r2 = Fin t2 \<and> t2 < t1"
proof -
  assume a: "0 < r1" "r1 < r2" "real_of_int r2 < ADC_MAX"
  then have b: "r2 < 4095" by (simp add: ADC_MAX_def)
  have "temperatureC r1 = Fin (1 / invT r1 - 273.15)"
    using a b by (intro temperatureC_mid) simp_all
  moreover have "temperatureC r2 = Fin (1 / invT r2 - 273.15)"
    using a b by (intro temperatureC_mid) simp_all
  moreover have "1 / invT r2 - 273.15 < 1 / invT r1 - 273.15"
    using a(1,2) b by (rule temperatureC_strict_antimono)
  ultimately show ?thesis by blast
qed

theorem C3_temperature_decreasing_witness:
  "(0::int) < 1800 \<and> (1800::int) < 1801 \<and> real_of_int 1801 < ADC_MAX \<and>
   (\<exists>t1 t2. temperatureC 1800 = Fin t1 \<and> temperatureC 1801 = Fin t2 \<and> t2 < t1)"
proof -
  have h: "real_of_int 1801 < ADC_MAX" by (simp add: ADC_MAX_def)
  have "\<exists>t1 t2. temperatureC 1800 = Fin t1 \<and> temperatureC 1801 = Fin t2 \<and> t2 < t1"
    using C3_temperature_decreasing [of 1800 1801] h by simp
  with h show ?thesis by simp
qed

subsection \<open>The temperature at raw code 0\<close>

text \<open>
  Bounds on \<open>ln 10\<close> from the Taylor polynomial of degree 7 of the exponential
  function with its remainder.
\<close>

lemma exp_lower_Taylor:
  fixes x :: real assumes "0 \<le> x"
  shows "(\<Sum>m<n. x ^ m / fact m) \<le> exp x"
proof -
  obtain t where "exp x = (\<Sum>m<n. x ^ m / fact m) + (exp t / fact n) * x ^ n"
    using Maclaurin_exp_le [of x n] by blast
  moreover have "0 \<le> (exp t / fact n) * x ^ n" using assms by simp
  ultimately show ?thesis by linarith
qed

lemma exp_upper_Taylor:
  fixes x :: real assumes "0 \<le> x" "x \<le> 1"
  shows "exp x \<le> (\<Sum>m<n. x ^ m / fact m) + 3 * x ^ n / fact n"
proof -
  obtain t where t: "\<bar>t\<bar> \<le> \<bar>x\<bar>"
    and e: "exp x = (\<Sum>m<n. x ^ m / fact m) + (exp t / fact n) * x ^ n"
    using Maclaurin_exp_le [of x n] by blast
  have "t \<le> 1" using t assms by linarith
  then have "exp t \<le> exp 1" by simp
  then have "exp t \<le> 3" using exp_le by linarith
  then have "exp t * (x ^ n / fact n) \<le> 3 * (x ^ n / fact n)"
    using assms by (intro mult_right_mono) simp_all
  then show ?thesis using e by (simp add: field_simps)
qed

lemma S8: "(\<Sum>m<8. x ^ m / fact m) =
  1 + x + x^2 / 2 + x^3 / 6 + x^4 / 24 + x^5 / 120 + x^6 / 720 + x^7 / (5040::real)"
  by (simp add: eval_nat_numeral lessThan_Suc fact_numeral)

lemma exp_lo_val: "exp (0.57525::real) < 1.778"
proof -
  have "exp (0.57525::real) \<le> (\<Sum>m<8. 0.57525 ^ m / fact m) + 3 * 0.57525 ^ 8 / fact 8"
    by (rule exp_upper_Taylor) simp_all
  also have "\<dots> < 1.778" unfolding S8 by (simp add: fact_numeral power_divide)
  finally show ?thesis .
qed

lemma exp_hi_val: "(1.7783::real) < exp 0.576"
proof -
  have "(1.7783::real) < (\<Sum>m<8. 0.576 ^ m / fact m)" unfolding S8 by (simp add: power_divide)
  also have "\<dots> \<le> exp 0.576" by (rule exp_lower_Taylor) simp
  finally show ?thesis .
qed

lemma ln_10_lower: "2.301 < ln (10::real)"
proof -
  have "exp (2.301::real) = exp (0.57525) ^ 4"
    by (simp add: exp_of_nat_mult [symmetric])
  also have "\<dots> < 1.778 ^ 4"
    using exp_lo_val by (intro power_strict_mono) simp_all
  also have "\<dots> < 10" by (simp add: power_divide)
  finally have "exp (2.301::real) < 10" .
  then have "ln (exp (2.301::real)) < ln 10" by (subst ln_less_cancel_iff) simp_all
  then show ?thesis by simp
qed

lemma ln_10_upper: "ln (10::real) < 2.304"
proof -
  have "(10::real) < 1.7783 ^ 4" by (simp add: power_divide)
  also have "\<dots> < exp 0.576 ^ 4"
    using exp_hi_val by (intro power_strict_mono) simp_all
  also have "\<dots> = exp (2.304::real)"
    by (simp add: exp_of_nat_mult [symmetric])
  finally have "(10::real) < exp 2.304" .
  then have "ln (10::real) < ln (exp 2.304)" by (subst ln_less_cancel_iff) simp_all
  then show ?thesis by simp
qed

lemma ln_100: "ln (100::real) = 2 * ln 10"
proof -
  have "ln (100::real) = ln (10 ^ 2)" by simp
  also have "\<dots> = 2 * ln 10" by (subst ln_realpow) simp_all
  finally show ?thesis .
qed


lemma ln_100_bounds: "4.602 < ln (100::real) \<and> ln (100::real) < 4.608"
  using ln_10_lower ln_10_upper by (simp add: ln_100)

lemma temperatureC_zero: "temperatureC 0 = Fin spec_temperature_raw0"
proof -
  have "0 < ln (100::real)" by simp
  then have "0 < ln (100::real) / 3950 + 1 / 298.15" by (simp add: add_pos_pos)
  then have "ln (100::real) / 3950 + 1 / 298.15 \<noteq> 0" by simp
  then show ?thesis
    by (simp add: temperatureC_def steinhart_def resistance_def Let_def fsub_def
        spec_temperature_raw0_def NOMINAL_RESISTANCE_def B_COEFFICIENT_def
        NOMINAL_TEMPERATURE_def)
qed

lemma spec_temperature_raw0_bounds:
  "- 51.95 < spec_temperature_raw0 \<and> spec_temperature_raw0 < - 51.85"
proof -
  define L where "L = ln (100::real)"
  define v where "v = L / 3950 + 1 / 298.15"
  have lo: "4.602 < L" and hi: "L < 4.608" using ln_100_bounds by (simp_all add: L_def)
  have v_lo: "1 / 221.3 < v" using lo by (simp add: v_def field_simps)
  have v_hi: "v < 1 / 221.2" using hi by (simp add: v_def field_simps)
  have v_pos: "0 < v" using v_lo by simp
  have "1 / v < 221.3" using v_lo v_pos by (simp add: field_simps)
  moreover have "221.2 < 1 / v" using v_hi v_pos by (simp add: field_simps)
  moreover have "spec_temperature_raw0 = 1 / v - 273.15"
    by (simp add: spec_temperature_raw0_def v_def L_def)
  ultimately show ?thesis by simp
qed

text \<open>
  C7 (as stated). The temperature computed for raw code 0 is the value of the spec's
  formula, but that value is not near -86.7: it lies more than 34 degrees above.
\<close>

theorem C7_raw0_counterexample:
  "temperatureC 0 = Fin spec_temperature_raw0 \<and>
   34 < spec_temperature_raw0 - (- 86.7)"
  using temperatureC_zero spec_temperature_raw0_bounds by simp

text \<open>
  C7 (amended). The temperature computed for raw code 0 (the open-circuit sentinel,
  resistance 1,000,000) equals \<open>1 / (ln (1000000 / 10000) / 3950 + 1 / 298.15) - 273.15\<close>,
  which is approximately -51.9 degrees Celsius (between -51.95 and -51.85).
\<close>

theorem C7_raw0_temperature:
  "temperatureC 0 = Fin spec_temperature_raw0 \<and>
   spec_temperature_raw0 = 1 / (ln (1000000 / 10000) / 3950 + 1 / 298.15) - 273.15 \<and>
   - 51.95 < spec_temperature_raw0 \<and> spec_temperature_raw0 < - 51.85"
  using temperatureC_zero spec_temperature_raw0_bounds
  by (simp add: spec_temperature_raw0_def)

theorem C7_raw0_temperature_witness:
  "temperatureC 0 = Fin spec_temperature_raw0 \<and> spec_temperature_raw0 < - 51.85"
  using C7_raw0_temperature by simp

section \<open>Status\<close>

lemma fgt_Fin_iff: "fgt t (Fin thr) \<longleftrightarrow> t = PInf \<or> (\<exists>x. t = Fin x \<and> thr < x)"
  by (cases t) simp_all

text \<open>
  C4. The status classifier returns the high-temperature warning status if and only if
  the temperature is strictly greater than \<open>TEMP_THRESHOLD\<close>; when the temperature equals
  \<open>TEMP_THRESHOLD\<close> exactly, the status is the normal status (\<open>System Normal\<close> in
  \<^verbatim>\<open>SolarPanel.ino\<close>, \<open>OK\<close> in \<^verbatim>\<open>sketch_feb5a.ino\<close>).
\<close>

theorem C4_status_threshold:
  "(statusOf thr t = ''WARNING: HIGH TEMP!'' \<longleftrightarrow> fgt t (Fin thr)) \<and>
   (statusMsg thr t = ''WARNING: HIGH TEMP!'' \<longleftrightarrow> fgt t (Fin thr)) \<and>
   (fgt (Fin x) (Fin thr) \<longleftrightarrow> thr < x) \<and>
   statusOf thr (Fin thr) = ''System Normal'' \<and>
   statusMsg thr (Fin thr) = ''OK''"
  by (simp add: statusOf_def statusMsg_def)

theorem C4_status_threshold_witness:
  "statusOf 32.5 (Fin 32.6) = ''WARNING: HIGH TEMP!'' \<and>
   statusMsg 30 (Fin 30.1) = ''WARNING: HIGH TEMP!'' \<and>
   statusOf 32.5 (Fin 32.5) = ''System Normal'' \<and>
   statusMsg 30 (Fin 30) = ''OK''"
  using C4_status_threshold [of "32.5" "Fin 32.6" "32.6"]
    C4_status_threshold [of 30 "Fin 30.1" "30.1"]
  by simp

section \<open>Light percentage\<close>

text \<open>
  On the codes 0 to 4095 both operands of the division in \<^verbatim>\<open>map\<close> are below zero, so
  the truncated quotient is the quotient of their absolute values.
\<close>

lemma map_long_light:
  assumes "0 \<le> raw" "raw \<le> 4095"
  shows "map_long raw 4095 0 0 100 = ((4095 - raw) * 100 + 2047) div 4095"
proof -
  have h: "c_div (- 4095) 2 = - 2047" by (simp add: c_div_def)
  have n: "(raw - 4095) * 100 + - 2047 < 0" using assms by simp
  then have "sgn ((raw - 4095) * 100 + - 2047) = - 1"
    and "\<bar>(raw - 4095) * 100 + - 2047\<bar> = (4095 - raw) * 100 + 2047"
    by (simp_all add: sgn_if)
  then have "c_div ((raw - 4095) * 100 + - 2047) (- 4095)
             = ((4095 - raw) * 100 + 2047) div 4095"
    by (simp add: c_div_def)
  then show ?thesis by (simp add: map_long_def Let_def h)
qed

lemma light_div_bounds:
  assumes "0 \<le> raw" "raw \<le> 4095"
  shows "0 \<le> ((4095 - raw) * 100 + 2047) div 4095 \<and>
         ((4095 - raw) * 100 + 2047) div (4095::int) \<le> 100"
proof -
  have "0 \<le> (4095 - raw) * 100 + 2047" using assms by simp
  then have a: "0 \<le> ((4095 - raw) * 100 + 2047) div 4095"
    by (simp add: pos_imp_zdiv_nonneg_iff)
  have "(4095 - raw) * 100 + 2047 \<le> 4095 * 100 + 2047" using assms by simp
  then have "((4095 - raw) * 100 + 2047) div 4095 \<le> (4095 * 100 + 2047) div 4095"
    by (rule zdiv_mono1) simp
  then show ?thesis using a by simp
qed

lemma lightPercent_div:
  assumes "0 \<le> raw" "raw \<le> 4095"
  shows "lightPercent raw = ((4095 - raw) * 100 + 2047) div 4095"
  using light_div_bounds [OF assms]
  by (simp add: lightPercent_def map_long_light [OF assms] Let_def)

lemma lightPercent_range: "0 \<le> lightPercent raw \<and> lightPercent raw \<le> 100"
  by (simp add: lightPercent_def Let_def)

text \<open>
  C5. \<open>lightPercent 0 = 100\<close> and \<open>lightPercent 4095 = 0\<close>, and for every raw code in
  \<open>[0, 4095]\<close> the result is an integer in \<open>[0, 100]\<close>.
\<close>

theorem C5_lightPercent_range:
  "lightPercent 0 = 100 \<and> lightPercent 4095 = 0 \<and>
   (0 \<le> raw \<and> raw \<le> 4095 \<longrightarrow> 0 \<le> lightPercent raw \<and> lightPercent raw \<le> 100)"
proof -
  have "lightPercent 0 = 100" by (simp add: lightPercent_div)
  moreover have "lightPercent 4095 = 0" by (simp add: lightPercent_div)
  ultimately show ?thesis using lightPercent_range [of raw] by simp
qed

theorem C5_lightPercent_range_witness:
  "(0::int) \<le> 500 \<and> (500::int) \<le> 4095 \<and>
   0 \<le> lightPercent 500 \<and> lightPercent 500 \<le> 100"
  using C5_lightPercent_range [of 500] by simp

text \<open>
  Adding half the divisor first makes the quotient the nearest integer: for an integer
  \<open>n\<close>, halving \<open>2 * n + 1\<close> and then dividing by \<open>d\<close> is dividing \<open>n\<close> by \<open>d\<close>.
\<close>

lemma half_up_div:
  fixes n d :: int
  assumes "0 < d"
  shows "(2 * n + 1) div (2 * d) = n div d"
proof -
  have "(2 * n + 1) div (2 * d) = ((2 * n + 1) div 2) div d"
    using assms by (simp add: zdiv_zmult2_eq)
  also have "(2 * n + 1) div 2 = n" by simp
  finally show ?thesis .
qed

lemma light_round:
  assumes "0 \<le> raw" "raw \<le> 4095"
  shows "round (100 - (real_of_int raw / 4095) * 100) = ((4095 - raw) * 100 + 2047) div 4095"
proof -
  have "100 - (real_of_int raw / 4095) * 100 + 1 / 2
        = real_of_int (2 * ((4095 - raw) * 100 + 2047) + 1) / real_of_int (2 * 4095)"
    by (simp add: field_simps)
  then have "round (100 - (real_of_int raw / 4095) * 100)
        = (2 * ((4095 - raw) * 100 + 2047) + 1) div (2 * 4095)"
    unfolding round_def by (simp only: floor_divide_of_int_eq)
  also have "\<dots> = ((4095 - raw) * 100 + 2047) div 4095"
    by (rule half_up_div) simp
  finally show ?thesis .
qed

text \<open>
  C6. For every raw code in \<open>[0, ADC_MAX]\<close> the light percentage equals the nearest
  integer to \<open>100 - (raw / ADC_MAX) * 100\<close>: it is that value rounded, and it lies within
  one half of it.
\<close>

theorem C6_lightPercent_nearest:
  "0 \<le> raw \<Longrightarrow> real_of_int raw \<le> ADC_MAX \<Longrightarrow>
   lightPercent raw = round (100 - (real_of_int raw / ADC_MAX) * 100) \<and>
   \<bar>real_of_int (lightPercent raw) - (100 - (real_of_int raw / ADC_MAX) * 100)\<bar> \<le> 1 / 2"
proof -
  assume a: "0 \<le> raw" "real_of_int raw \<le> ADC_MAX"
  then have r: "raw \<le> 4095" by (simp add: ADC_MAX_def)
  have e: "lightPercent raw = round (100 - (real_of_int raw / ADC_MAX) * 100)"
    using lightPercent_div [OF a(1) r] light_round [OF a(1) r] by (simp add: ADC_MAX_def)
  have "\<bar>real_of_int (round (100 - (real_of_int raw / ADC_MAX) * 100))
         - (100 - (real_of_int raw / ADC_MAX) * 100)\<bar> \<le> 1 / 2"
    by (rule of_int_round_abs_le)
  then show ?thesis using e by simp
qed

theorem C6_lightPercent_nearest_witness:
  "(0::int) \<le> 2048 \<and> real_of_int 2048 \<le> ADC_MAX \<and>
   lightPercent 2048 = round (100 - (real_of_int 2048 / ADC_MAX) * 100) \<and>
   lightPercent 2048 = 50"
proof -
  have h: "real_of_int 2048 \<le> ADC_MAX" by (simp add: ADC_MAX_def)
  have v: "lightPercent 2048 = 50"
    by (simp add: lightPercent_def map_long_def c_div_def Let_def)
  have "lightPercent 2048 = round (100 - (real_of_int 2048 / ADC_MAX) * 100)"
    using C6_lightPercent_nearest [of 2048] h by simp
  with h v show ?thesis by simp
qed

section \<open>The stored telemetry\<close>

lemma str_includes_sublist: "str_includes s pat \<longleftrightarrow> sublist pat s"
  by (induction s) (simp_all add: sublist_Cons_right)

lemma str_includes_iff: "str_includes s pat \<longleftrightarrow> (\<exists>a b. s = a @ pat @ b)"
  by (simp add: str_includes_sublist sublist_def)

lemma statusOf_includes:
  "str_includes (statusOf thr t) ''WARNING'' \<longleftrightarrow> fgt t (Fin thr)"
  by (simp add: statusOf_def)

lemma run_Nil: "run b [] = init"
  by (simp add: run_def)

lemma run_snoc: "run b (rs @ [i]) = loop b (run b rs) i"
  by (simp add: run_def)

text \<open>
  A pass either leaves status and temperature as they were or stores a temperature and
  the status computed from it.
\<close>

lemma loop_status:
  "currentStatus (loop b s i) = currentStatus s \<and> currentTemp (loop b s i) = currentTemp s
   \<or> currentStatus (loop b s i) = statusOf (TEMP_THRESHOLD b) (currentTemp (loop b s i))"
  by (simp add: loop_def Let_def)

lemma status_inv:
  "currentStatus (run b rs) = ''OK'' \<and> currentTemp (run b rs) = Fin 0
   \<or> currentStatus (run b rs) = statusOf (TEMP_THRESHOLD b) (currentTemp (run b rs))"
proof (induction rs rule: rev_induct)
  case Nil
  show ?case by (simp add: run_Nil init_def)
next
  case (snoc i rs)
  then show ?case using loop_status [of b "run b rs" i] by (auto simp: run_snoc)
qed

lemma handleReadings_eq:
  \<open>handleReadings F I s =
     ''{"temp":'' @ F (currentTemp s) @ '',"light":'' @ I (currentLightPercent s)
       @ '',"status":"'' @ currentStatus s @ ''"}''\<close>
  by (simp add: handleReadings_def Let_def)

lemma temperatureC_high: "4095 \<le> adc \<Longrightarrow> temperatureC adc = Fin (- 273.15)"
  by (simp add: temperatureC_def steinhart_def resistance_high Let_def fsub_def
      NOMINAL_RESISTANCE_def B_COEFFICIENT_def)

lemma ln_4094: "1 < ln (4094::real)"
proof -
  have "exp (1::real) < 4094" using exp_le by linarith
  then have "ln (exp (1::real)) < ln 4094" by (subst ln_less_cancel_iff) simp_all
  then show ?thesis by simp
qed

text \<open>Raw code 1 gives a temperature above both thresholds: the warning is reachable.\<close>

lemma temperatureC_one_hot: "fgt (temperatureC 1) (Fin 32.5)"
proof -
  have r: "resistance 1 / 10000 = 1 / 4094"
    by (simp add: resistance_def ADC_MAX_def SERIES_RESISTOR_def)
  have "ln (1 / 4094 :: real) = - ln 4094" by (simp add: ln_div)
  then have "invT 1 = - ln 4094 / 3950 + 1 / 298.15" by (simp add: invT_def r)
  then have "invT 1 < 1 / 305.65" using ln_4094 by (simp add: field_simps)
  moreover have p: "0 < invT 1" by (rule invT_pos) simp_all
  ultimately have "305.65 < 1 / invT 1" by (simp add: field_simps)
  moreover have "temperatureC 1 = Fin (1 / invT 1 - 273.15)"
    by (rule temperatureC_mid) simp_all
  ultimately show ?thesis by simp
qed

text \<open>
  C8. After any sequence of passes of \<^verbatim>\<open>loop\<close>, the status string that
  \<^verbatim>\<open>handleReadings\<close> puts into the JSON payload is exactly \<open>OK\<close>, exactly
  \<open>System Normal\<close>, or a string containing \<open>WARNING\<close>.
\<close>

theorem C8_status_strings:
  \<open>(currentStatus (run b rs) = ''OK'' \<or> currentStatus (run b rs) = ''System Normal''
     \<or> str_includes (currentStatus (run b rs)) ''WARNING'') \<and>
   handleReadings F I (run b rs) =
     ''{"temp":'' @ F (currentTemp (run b rs)) @
     '',"light":'' @ I (currentLightPercent (run b rs)) @
     '',"status":"'' @ currentStatus (run b rs) @ ''"}''\<close>
  using status_inv [of b rs] by (auto simp: handleReadings_eq statusOf_def)

theorem C8_status_strings_witness:
  \<open>currentStatus (run SolarPanel_buzzer
      [\<lparr>millis1 = 1001, millis2 = 1002, adcTherm = 4095, adcLDR = 500\<rparr>]) = ''System Normal'' \<and>
   handleReadings (\<lambda>t. ''-273.15'') (\<lambda>l. ''88'') (run SolarPanel_buzzer
      [\<lparr>millis1 = 1001, millis2 = 1002, adcTherm = 4095, adcLDR = 500\<rparr>])
     = ''{"temp":-273.15,"light":88,"status":"System Normal"}''\<close>
proof -
  have \<open>currentStatus (run SolarPanel_buzzer
          [\<lparr>millis1 = 1001, millis2 = 1002, adcTherm = 4095, adcLDR = 500\<rparr>])
        = ''System Normal''\<close>
    by (simp add: run_def loop_def init_def interval_def temperatureC_high Let_def
        SolarPanel_buzzer_def statusOf_def)
  then show ?thesis
    using C8_status_strings [of SolarPanel_buzzer
        "[\<lparr>millis1 = 1001, millis2 = 1002, adcTherm = 4095, adcLDR = 500\<rparr>]"
        "\<lambda>t. ''-273.15''" "\<lambda>l. ''88''"]
    by simp
qed

text \<open>
  C9. The derivation is a function of the two raw codes alone: two sampling passes of
  \<^verbatim>\<open>loop\<close> that read the same pair of raw codes store the same temperature, light
  percentage and status, whatever the globals held before and whatever the clock reads;
  and one pass of the serial-only sketch prints a triple that depends on nothing else.
\<close>

theorem C9_deterministic:
  "interval < millis1 i1 - lastTime s1 \<Longrightarrow> interval < millis1 i2 - lastTime s2 \<Longrightarrow>
   adcTherm i1 = adcTherm i2 \<Longrightarrow> adcLDR i1 = adcLDR i2 \<Longrightarrow>
   currentTemp (loop b s1 i1) = currentTemp (loop b s2 i2) \<and>
   currentLightPercent (loop b s1 i1) = currentLightPercent (loop b s2 i2) \<and>
   currentStatus (loop b s1 i1) = currentStatus (loop b s2 i2) \<and>
   loop_sketch b (adcTherm i1) (adcLDR i1) = loop_sketch b (adcTherm i2) (adcLDR i2)"
  by (simp add: loop_def Let_def)

theorem C9_deterministic_witness:
  "interval < millis1 \<lparr>millis1 = 1001, millis2 = 1002, adcTherm = 4095, adcLDR = 500\<rparr>
       - lastTime init \<and>
   interval < millis1 \<lparr>millis1 = 7000, millis2 = 7003, adcTherm = 4095, adcLDR = 500\<rparr>
       - lastTime \<lparr>currentTemp = Fin 40, currentLightPercent = 7,
           currentStatus = ''WARNING: HIGH TEMP!'', lastTime = 5000, buzzerDuty = Some 128\<rparr> \<and>
   currentStatus (loop SolarPanel_buzzer init
       \<lparr>millis1 = 1001, millis2 = 1002, adcTherm = 4095, adcLDR = 500\<rparr>) =
   currentStatus (loop SolarPanel_buzzer
       \<lparr>currentTemp = Fin 40, currentLightPercent = 7,
           currentStatus = ''WARNING: HIGH TEMP!'', lastTime = 5000, buzzerDuty = Some 128\<rparr>
       \<lparr>millis1 = 7000, millis2 = 7003, adcTherm = 4095, adcLDR = 500\<rparr>)"
proof -
  have g1: "interval < millis1 \<lparr>millis1 = 1001, millis2 = 1002, adcTherm = 4095, adcLDR = 500\<rparr>
       - lastTime init"
    by (simp add: interval_def init_def)
  have g2: "interval < millis1 \<lparr>millis1 = 7000, millis2 = 7003, adcTherm = 4095, adcLDR = 500\<rparr>
       - lastTime \<lparr>currentTemp = Fin 40, currentLightPercent = 7,
           currentStatus = ''WARNING: HIGH TEMP!'', lastTime = 5000, buzzerDuty = Some 128\<rparr>"
    by (simp add: interval_def)
  show ?thesis
    using g1 g2 C9_deterministic [OF g1 g2, of SolarPanel_buzzer] by simp
qed

text \<open>
  C10. After any sequence of passes of \<^verbatim>\<open>loop\<close>, the initial state included (where
  \<open>currentTemp\<close> is 0.0 and \<open>currentStatus\<close> is \<open>OK\<close>), the stored status contains
  \<open>WARNING\<close> if and only if the stored temperature is strictly greater than
  \<open>TEMP_THRESHOLD\<close>; the same holds of the status and temperature that one pass of the
  serial-only sketch prints. The threshold is not negative in any build (30.0 and 32.5).
\<close>

theorem C10_status_matches_temperature:
  "0 \<le> TEMP_THRESHOLD b \<Longrightarrow>
   (str_includes (currentStatus (run b rs)) ''WARNING'' \<longleftrightarrow>
      fgt (currentTemp (run b rs)) (Fin (TEMP_THRESHOLD b))) \<and>
   (case loop_sketch b adcT adcL of (t, l, m) \<Rightarrow>
      str_includes m ''WARNING'' \<longleftrightarrow> fgt t (Fin (TEMP_THRESHOLD b)))"
  using status_inv [of b rs]
  by (auto simp: statusOf_includes loop_sketch_def statusMsg_def Let_def)

theorem C10_status_matches_temperature_witness:
  "0 \<le> TEMP_THRESHOLD SolarPanel_buzzer \<and>
   str_includes (currentStatus (run SolarPanel_buzzer
       [\<lparr>millis1 = 1001, millis2 = 1002, adcTherm = 1, adcLDR = 500\<rparr>])) ''WARNING'' \<and>
   fgt (currentTemp (run SolarPanel_buzzer
       [\<lparr>millis1 = 1001, millis2 = 1002, adcTherm = 1, adcLDR = 500\<rparr>]))
      (Fin (TEMP_THRESHOLD SolarPanel_buzzer))"
proof -
  have h: "0 \<le> TEMP_THRESHOLD SolarPanel_buzzer" by (simp add: SolarPanel_buzzer_def)
  have t: "currentTemp (run SolarPanel_buzzer
       [\<lparr>millis1 = 1001, millis2 = 1002, adcTherm = 1, adcLDR = 500\<rparr>]) = temperatureC 1"
    by (simp add: run_def loop_def init_def interval_def Let_def)
  have "fgt (temperatureC 1) (Fin (TEMP_THRESHOLD SolarPanel_buzzer))"
    using temperatureC_one_hot by (simp add: SolarPanel_buzzer_def)
  then show ?thesis
    using h t C10_status_matches_temperature [OF h,
        of "[\<lparr>millis1 = 1001, millis2 = 1002, adcTherm = 1, adcLDR = 500\<rparr>]"]
    by simp
qed

end
